theory Spec2Isabelle
  imports Main
begin

section \<open>Python text\<close>

text \<open>
  A Python \<open>str\<close> is a sequence of Unicode code points; it is modelled as a list of
  natural numbers, so that \<open>length\<close> counts what \<open>len\<close> counts.  String constants of
  the source are written with \<open>lit\<close>.
\<close>

type_synonym ustr = "nat list"

definition lit :: "string \<Rightarrow> ustr" where
  "lit s = map of_char s"

text \<open>
  \<open>isspace\<close> is the set of code points that \<open>str.strip()\<close> removes and that \<open>\s\<close>
  matches in a \<open>str\<close> pattern: U+0009-000D, U+001C-0020, U+0085, U+00A0, U+1680,
  U+2000-200A, U+2028, U+2029, U+202F, U+205F, U+3000.
\<close>

definition isspace :: "nat \<Rightarrow> bool" where
  "isspace c \<longleftrightarrow>
     (9 \<le> c \<and> c \<le> 13) \<or> (28 \<le> c \<and> c \<le> 32) \<or> c = 133 \<or> c = 160 \<or> c = 5760 \<or>
     (8192 \<le> c \<and> c \<le> 8202) \<or> c = 8232 \<or> c = 8233 \<or> c = 8239 \<or> c = 8287 \<or> c = 12288"

text \<open>
  \<open>tolower\<close> is the simple (one code point) lower-case mapping the regex engine uses
  under \<open>IGNORECASE\<close>; \<open>lower\<close> is \<open>str.lower()\<close>, the full mapping, under which
  U+0130 (capital I with dot above) becomes the two code points U+0069 U+0307.  Both
  tables are written out for ASCII, Latin-1, U+0130 and U+212A (Kelvin sign, which
  lowers to \<open>k\<close>); the remaining cased letters of Unicode map one to one to non-ASCII
  letters and are left unchanged here, which no comparison of the source can observe
  (every string it compares against is ASCII).
\<close>

definition tolower :: "nat \<Rightarrow> nat" where
  "tolower c =
     (if 65 \<le> c \<and> c \<le> 90 then c + 32
      else if 192 \<le> c \<and> c \<le> 222 \<and> c \<noteq> 215 then c + 32
      else if c = 304 then 105
      else if c = 8490 then 107
      else c)"

definition lower_cp :: "nat \<Rightarrow> ustr" where
  "lower_cp c = (if c = 304 then [105, 775] else [tolower c])"

definition lower :: "ustr \<Rightarrow> ustr" where
  "lower s = concat (map lower_cp s)"

definition strip :: "ustr \<Rightarrow> ustr" where
  "strip s = rev (dropWhile isspace (rev (dropWhile isspace s)))"

text \<open>\<open>s.find(sub)\<close>: the lowest index where \<open>sub\<close> occurs in \<open>s\<close>, or \<open>-1\<close>.\<close>

fun find :: "ustr \<Rightarrow> ustr \<Rightarrow> int" where
  "find [] sub = (if sub = [] then 0 else - 1)"
| "find (x # xs) sub =
     (if take (length sub) (x # xs) = sub then 0
      else (let i = find xs sub in if i < 0 then - 1 else i + 1))"

text \<open>\<open>sub in s\<close>\<close>

fun contains :: "ustr \<Rightarrow> ustr \<Rightarrow> bool" where
  "contains [] sub = (sub = [])"
| "contains (x # xs) sub = (take (length sub) (x # xs) = sub \<or> contains xs sub)"

section \<open>The regular expressions of the sanitizer\<close>

text \<open>
  Every pattern of \<open>pdf_converter.py\<close> is a sequence of single-character atoms, each
  with at most one quantifier, so a pattern is a list of items.  \<open>ChrI\<close> is a literal
  under \<open>re.IGNORECASE\<close>: the engine lowers the pattern character with \<open>tolower\<close> and
  accepts a subject character whose \<open>tolower\<close> is equal to it, or is its partner in
  the engine's table of equivalent lower-case letters (\<open>i\<close> and dotless \<open>i\<close> U+0131,
  \<open>s\<close> and long \<open>s\<close> U+017F; the pairs without an ASCII member are not listed).
  \<open>Word\<close> is \<open>\w\<close>, written out for ASCII and Latin-1 (code points from 256 on are
  not classified).
\<close>

datatype cls =
    Chr nat
  | ChrI nat
  | Space
  | Word
  | Dot
  | DotAll
  | OneOf "nat list"
  | NoneOf "nat list"

definition ci_eq :: "nat \<Rightarrow> nat \<Rightarrow> bool" where
  "ci_eq p c \<longleftrightarrow>
     tolower c = tolower p \<or>
     (tolower p = 105 \<and> tolower c = 305) \<or> (tolower p = 305 \<and> tolower c = 105) \<or>
     (tolower p = 115 \<and> tolower c = 383) \<or> (tolower p = 383 \<and> tolower c = 115)"

definition isword :: "nat \<Rightarrow> bool" where
  "isword c \<longleftrightarrow>
     (48 \<le> c \<and> c \<le> 57) \<or> (65 \<le> c \<and> c \<le> 90) \<or> c = 95 \<or> (97 \<le> c \<and> c \<le> 122) \<or>
     c = 170 \<or> c = 178 \<or> c = 179 \<or> c = 181 \<or> c = 185 \<or> c = 186 \<or>
     (188 \<le> c \<and> c \<le> 190) \<or> (192 \<le> c \<and> c \<le> 214) \<or> (216 \<le> c \<and> c \<le> 246) \<or>
     (248 \<le> c \<and> c \<le> 255)"

fun accepts :: "cls \<Rightarrow> nat \<Rightarrow> bool" where
  "accepts (Chr p) c = (c = p)"
| "accepts (ChrI p) c = ci_eq p c"
| "accepts Space c = isspace c"
| "accepts Word c = isword c"
| "accepts Dot c = (c \<noteq> 10)"
| "accepts DotAll c = True"
| "accepts (OneOf cs) c = (c \<in> set cs)"
| "accepts (NoneOf cs) c = (c \<notin> set cs)"

text \<open>
  \<open>One a\<close> is \<open>a\<close>, \<open>Opt a\<close> is \<open>a?\<close>, \<open>Star a\<close> is \<open>a*\<close>, \<open>Plus a\<close> is \<open>a+\<close>
  (all greedy) and \<open>Lazy a\<close> is \<open>a*?\<close>.
\<close>

datatype item = One cls | Opt cls | Star cls | Plus cls | Lazy cls

text \<open>
  \<open>rmatch p s\<close> is the backtracking match of \<open>p\<close> at the start of \<open>s\<close>, in the order
  in which \<open>re\<close> tries the alternatives: a greedy quantifier first takes one more
  character and gives it back only when the rest of the pattern fails, a lazy one first
  tries the rest of the pattern.  The result is the text each item consumed, in order
  (a parenthesised item of the source is read off this list), and the unread rest.
\<close>

type_synonym rmatch_result = "ustr list \<times> ustr"

fun grow :: "nat \<Rightarrow> rmatch_result \<Rightarrow> rmatch_result" where
  "grow x (seg # segs, t) = ((x # seg) # segs, t)"
| "grow x ([], t) = ([[x]], t)"

fun took :: "ustr \<Rightarrow> rmatch_result \<Rightarrow> rmatch_result" where
  "took seg (segs, t) = (seg # segs, t)"

fun rmatch :: "item list \<Rightarrow> ustr \<Rightarrow> rmatch_result option" where
  "rmatch [] s = Some ([], s)"
| "rmatch (One a # r) [] = None"
| "rmatch (One a # r) (x # xs) =
     (if accepts a x then map_option (took [x]) (rmatch r xs) else None)"
| "rmatch (Opt a # r) [] = map_option (took []) (rmatch r [])"
| "rmatch (Opt a # r) (x # xs) =
     (if accepts a x
      then (case rmatch r xs of
              Some m \<Rightarrow> Some (took [x] m)
            | None \<Rightarrow> map_option (took []) (rmatch r (x # xs)))
      else map_option (took []) (rmatch r (x # xs)))"
| "rmatch (Star a # r) [] = map_option (took []) (rmatch r [])"
| "rmatch (Star a # r) (x # xs) =
     (if accepts a x
      then (case rmatch (Star a # r) xs of
              Some m \<Rightarrow> Some (grow x m)
            | None \<Rightarrow> map_option (took []) (rmatch r (x # xs)))
      else map_option (took []) (rmatch r (x # xs)))"
| "rmatch (Plus a # r) [] = None"
| "rmatch (Plus a # r) (x # xs) =
     (if accepts a x then map_option (grow x) (rmatch (Star a # r) xs) else None)"
| "rmatch (Lazy a # r) [] = map_option (took []) (rmatch r [])"
| "rmatch (Lazy a # r) (x # xs) =
     (case rmatch r (x # xs) of
        Some m \<Rightarrow> Some (took [] m)
      | None \<Rightarrow> if accepts a x then map_option (grow x) (rmatch (Lazy a # r) xs) else None)"

text \<open>
  \<open>re.sub(p, repl, s)\<close>: scan from the left; where the pattern matches, emit the
  replacement (a function of the items' texts, for \<open>\1\<close>) and go on behind the match;
  elsewhere copy one character.  An empty match is replaced and the scan moves one
  character on, as \<open>re\<close> does since Python 3.7; no pattern of the source matches the
  empty string.
\<close>

function re_sub :: "item list \<Rightarrow> (ustr list \<Rightarrow> ustr) \<Rightarrow> ustr \<Rightarrow> ustr" where
  "re_sub p repl s =
     (case rmatch p s of
        Some (segs, t) \<Rightarrow>
          if length t < length s then repl segs @ re_sub p repl t
          else (case s of [] \<Rightarrow> repl segs | x # xs \<Rightarrow> repl segs @ x # re_sub p repl xs)
      | None \<Rightarrow> (case s of [] \<Rightarrow> [] | x # xs \<Rightarrow> x # re_sub p repl xs))"
  by pat_completeness auto
termination
  by (relation "measure (\<lambda>(p, repl, s). length s)") auto

text \<open>
  \<open>re.findall(p, s)\<close> for a pattern with one group, the item number \<open>g\<close>: the group's
  text at every match, from left to right.
\<close>

definition group :: "nat \<Rightarrow> ustr list \<Rightarrow> ustr" where
  "group g segs = (if g < length segs then segs ! g else [])"

function re_findall :: "item list \<Rightarrow> nat \<Rightarrow> ustr \<Rightarrow> ustr list" where
  "re_findall p g s =
     (case rmatch p s of
        Some (segs, t) \<Rightarrow>
          if length t < length s then group g segs # re_findall p g t
          else (case s of [] \<Rightarrow> [group g segs] | x # xs \<Rightarrow> group g segs # re_findall p g xs)
      | None \<Rightarrow> (case s of [] \<Rightarrow> [] | x # xs \<Rightarrow> re_findall p g xs))"
  by pat_completeness auto
termination
  by (relation "measure (\<lambda>(p, g, s). length s)") auto

declare re_sub.simps [simp del]

declare re_findall.simps [simp del]


definition pat :: "ustr \<Rightarrow> item list" where
  "pat s = map (\<lambda>c. One (Chr c)) s"

definition ipat :: "ustr \<Rightarrow> item list" where
  "ipat s = map (\<lambda>c. One (ChrI c)) s"

definition quotes :: "nat list" where
  "quotes = lit ''\"'' @ [39]"

section \<open>Exceptions and the library\<close>

text \<open>
  \<open>Exception\<close> stands for any instance of Python's class \<open>Exception\<close>, with its
  message; \<open>KeyboardInterrupt\<close> derives from \<open>BaseException\<close> only, so
  \<open>except Exception\<close> lets it pass and a bare \<open>except:\<close> catches it.

  The standard library and the operating system are the environment of the program.
  \<open>fault\<close> says which library call of the sanitizer raises: the calls are numbered as
  they are written in \<open>_sanitize_css_for_pdf\<close>, and a call is given its subject string.
  \<open>set_iter\<close> is the order in which a \<open>set\<close> of strings is iterated, which Python
  leaves open.
\<close>

datatype exn = Exception string | KeyboardInterrupt

record pylib =
  fault :: "nat \<Rightarrow> ustr \<Rightarrow> exn option"
  set_iter :: "ustr list \<Rightarrow> ustr list"

definition call :: "pylib \<Rightarrow> nat \<Rightarrow> (ustr \<Rightarrow> 'a) \<Rightarrow> ustr \<Rightarrow> exn + 'a" where
  "call lib site f s = (case fault lib site s of Some e \<Rightarrow> Inl e | None \<Rightarrow> Inr (f s))"

text \<open>The library in which no call raises, and a set is iterated in order of first occurrence.\<close>

definition quiet :: pylib where
  "quiet = \<lparr>fault = (\<lambda>site s. None), set_iter = remdups\<rparr>"

text \<open>
  A block of statements \<open>v = f(v)\<close> on one variable: run them in order; when one raises,
  the variable keeps the value it had.
\<close>

fun run_steps :: "(ustr \<Rightarrow> exn + ustr) list \<Rightarrow> ustr \<Rightarrow> exn option \<times> ustr" where
  "run_steps [] v = (None, v)"
| "run_steps (f # fs) v = (case f v of Inl e \<Rightarrow> (Some e, v) | Inr v' \<Rightarrow> run_steps fs v')"

section \<open>\<open>PDFConverter._sanitize_css_for_pdf\<close>\<close>

definition empty_repl :: "ustr list \<Rightarrow> ustr" where
  "empty_repl segs = []"

text \<open>\<^verbatim>\<open><style[^>]*>.*?</style>\<close> with \<open>DOTALL | IGNORECASE\<close>\<close>

definition style_pattern :: "item list" where
  "style_pattern =
     ipat (lit ''<style'') @ [Star (NoneOf (lit ''>''))] @ ipat (lit ''>'') @ [Lazy DotAll] @
     ipat (lit ''</style>'')"

text \<open>\<^verbatim>\<open>\s{attr}\s*=\s*["\'][^"\']*["\']\<close> with \<open>IGNORECASE\<close>, for a pattern \<open>attr\<close>\<close>

definition attr_pattern :: "item list \<Rightarrow> item list" where
  "attr_pattern attr =
     [One Space] @ attr @ [Star Space] @ ipat (lit ''='') @
     [Star Space, One (OneOf quotes), Star (NoneOf quotes), One (OneOf quotes)]"

definition inline_style_pattern :: "item list" where
  "inline_style_pattern = attr_pattern (ipat (lit ''style''))"

text \<open>\<^verbatim>\<open><link[^>]*rel\s*=\s*["\']stylesheet["\'][^>]*>\<close> with \<open>IGNORECASE\<close>\<close>

definition link_css_pattern :: "item list" where
  "link_css_pattern =
     ipat (lit ''<link'') @ [Star (NoneOf (lit ''>''))] @ ipat (lit ''rel'') @ [Star Space] @
     ipat (lit ''='') @ [Star Space, One (OneOf quotes)] @ ipat (lit ''stylesheet'') @
     [One (OneOf quotes), Star (NoneOf (lit ''>''))] @ ipat (lit ''>'')"

definition class_pattern :: "item list" where
  "class_pattern = attr_pattern (ipat (lit ''class''))"

text \<open>\<^verbatim>\<open>css_attributes = ['id', 'data-.*', 'aria-.*', 'role']\<close>, each a pattern\<close>

definition css_attributes :: "item list list" where
  "css_attributes =
     [ipat (lit ''id''),
      ipat (lit ''data-'') @ [Star Dot],
      ipat (lit ''aria-'') @ [Star Dot],
      ipat (lit ''role'')]"

text \<open>\<^verbatim>\<open><script[^>]*>.*?</script>\<close> with \<open>DOTALL | IGNORECASE\<close>\<close>

definition script_pattern :: "item list" where
  "script_pattern =
     ipat (lit ''<script'') @ [Star (NoneOf (lit ''>''))] @ ipat (lit ''>'') @ [Lazy DotAll] @
     ipat (lit ''</script>'')"

text \<open>
  The statements of the \<open>try\<close> block, before its \<open>return\<close>: the four removals, the
  loop over \<open>css_attributes\<close>, the removal of scripts, and the four whitespace rules
  \<^verbatim>\<open>\s+\<close> to a blank, \<^verbatim>\<open>>\s+<\<close> to \<^verbatim>\<open>><\<close>, \<^verbatim>\<open><\s+\<close> to \<^verbatim>\<open><\<close>, \<^verbatim>\<open>\s+>\<close> to \<^verbatim>\<open>>\<close>.
\<close>

definition css_attribute_steps :: "pylib \<Rightarrow> (ustr \<Rightarrow> exn + ustr) list" where
  "css_attribute_steps lib =
     map (\<lambda>attr. call lib 4 (re_sub (attr_pattern attr) empty_repl)) css_attributes"

definition primary_steps :: "pylib \<Rightarrow> (ustr \<Rightarrow> exn + ustr) list" where
  "primary_steps lib =
     [call lib 0 (re_sub style_pattern empty_repl),
      call lib 1 (re_sub inline_style_pattern empty_repl),
      call lib 2 (re_sub link_css_pattern empty_repl),
      call lib 3 (re_sub class_pattern empty_repl)] @
     css_attribute_steps lib @
     [call lib 5 (re_sub script_pattern empty_repl),
      call lib 6 (re_sub [Plus Space] (\<lambda>segs. lit '' '')),
      call lib 7 (re_sub (pat (lit ''>'') @ [Plus Space] @ pat (lit ''<'')) (\<lambda>segs. lit ''><'')),
      call lib 8 (re_sub (pat (lit ''<'') @ [Plus Space]) (\<lambda>segs. lit ''<'')),
      call lib 9 (re_sub ([Plus Space] @ pat (lit ''>'')) (\<lambda>segs. lit ''>''))]"

definition basic_tags :: "ustr list" where
  "basic_tags = map lit
     [''p'', ''h1'', ''h2'', ''h3'', ''h4'', ''h5'', ''h6'', ''div'', ''span'', ''ul'', ''ol'',
      ''li'', ''table'', ''tr'', ''td'', ''th'', ''br'', ''strong'', ''em'', ''b'', ''i'']"

text \<open>
  The loop of the fallback over \<open>set(all_tags)\<close>.  \<open>re.escape(tag)\<close> of a tag name, which
  consists of \<open>\w\<close> characters, matches the name itself.
\<close>

definition tag_pattern :: "ustr \<Rightarrow> item list" where
  "tag_pattern tag =
     ipat (lit ''<'') @ [Opt (ChrI 47)] @ ipat tag @ [Star (NoneOf (lit ''>''))] @ ipat (lit ''>'')"

definition remove_tag :: "pylib \<Rightarrow> ustr \<Rightarrow> ustr \<Rightarrow> exn + ustr" where
  "remove_tag lib tag clean_content =
     (case call lib 12 lower tag of
        Inl e \<Rightarrow> Inl e
      | Inr lowered \<Rightarrow>
          if lowered \<notin> set basic_tags
          then call lib 13 (re_sub (tag_pattern tag) empty_repl) clean_content
          else Inr clean_content)"

text \<open>
  The inner \<open>try\<close> block: \<^verbatim>\<open><(\w+)[^>]*>\<close> is replaced by \<^verbatim>\<open><\1>\<close>, the tag names are
  collected with \<^verbatim>\<open></?(\w+)[^>]*>\<close>, and every tag whose lowered name is not basic is
  removed.
\<close>

definition secondary :: "pylib \<Rightarrow> ustr \<Rightarrow> exn + ustr" where
  "secondary lib html_content =
     (case call lib 10
             (re_sub (pat (lit ''<'') @ [Plus Word, Star (NoneOf (lit ''>''))] @ pat (lit ''>''))
                (\<lambda>segs. lit ''<'' @ group 1 segs @ lit ''>'')) html_content of
        Inl e \<Rightarrow> Inl e
      | Inr clean_content \<Rightarrow>
          (case call lib 11
                  (re_findall (pat (lit ''<'') @ [Opt (Chr 47), Plus Word, Star (NoneOf (lit ''>''))] @
                     pat (lit ''>'')) 2) clean_content of
             Inl e \<Rightarrow> Inl e
           | Inr all_tags \<Rightarrow>
               (case run_steps (map (remove_tag lib) (set_iter lib all_tags)) clean_content of
                  (Some e, c) \<Rightarrow> Inl e
                | (None, c) \<Rightarrow> Inr c)))"

definition placeholder :: ustr where
  "placeholder = lit
     ''<html><body><p>Content processing failed - original content could not be parsed safely for PDF conversion.</p></body></html>''"

text \<open>
  The handler of the outer \<open>try\<close>: \<open>except Exception\<close> does not catch a
  \<open>KeyboardInterrupt\<close>; the bare \<open>except:\<close> around the fallback catches everything.
  The fallback starts from \<open>html_content\<close> as the \<open>try\<close> block left it.
\<close>

definition handler :: "pylib \<Rightarrow> exn \<Rightarrow> ustr \<Rightarrow> exn + ustr" where
  "handler lib e html_content =
     (case e of
        KeyboardInterrupt \<Rightarrow> Inl KeyboardInterrupt
      | Exception msg \<Rightarrow>
          (case secondary lib html_content of
             Inr clean_content \<Rightarrow> Inr clean_content
           | Inl e' \<Rightarrow> Inr placeholder))"

text \<open>
  The outer \<open>try\<close> block, ending in \<open>return html_content.strip()\<close>: what it returns or
  raises, and the value of \<open>html_content\<close> at that moment.
\<close>

definition try_block :: "pylib \<Rightarrow> ustr \<Rightarrow> (exn + ustr) \<times> ustr" where
  "try_block lib html_content =
     (case run_steps (primary_steps lib) html_content of
        (Some e, html_content') \<Rightarrow> (Inl e, html_content')
      | (None, html_content') \<Rightarrow> (call lib 14 strip html_content', html_content'))"

definition sanitize_css_for_pdf :: "pylib \<Rightarrow> ustr \<Rightarrow> exn + ustr" where
  "sanitize_css_for_pdf lib html_content =
     (case try_block lib html_content of
        (Inr r, html_content') \<Rightarrow> Inr r
      | (Inl e, html_content') \<Rightarrow> handler lib e html_content')"

section \<open>\<open>PDFConverter._enhance_html_for_pdf\<close>\<close>

definition pdf_css_lines :: "string list" where
  \<open>pdf_css_lines =
    [
     ''        <style type="text/css">'',
     ''        @page {'',
     ''            size: A4;'',
     ''            margin: 0.75in;'',
     ''        }'',
     ''        '',
     ''        body {'',
     ''            font-family: Arial, sans-serif;'',
     ''            line-height: 1.4;'',
     ''            color: #333;'',
     ''            font-size: 12pt;'',
     ''        }'',
     ''        '',
     ''        h1, h2, h3, h4, h5, h6 {'',
     ''            page-break-after: avoid;'',
     ''            margin-top: 1em;'',
     ''            margin-bottom: 0.5em;'',
     ''            color: #222;'',
     ''        }'',
     ''        '',
     ''        h1 { font-size: 18pt; }'',
     ''        h2 { font-size: 16pt; }'',
     ''        h3 { font-size: 14pt; }'',
     ''        h4 { font-size: 13pt; }'',
     ''        h5 { font-size: 12pt; }'',
     ''        h6 { font-size: 11pt; }'',
     ''        '',
     ''        p {'',
     ''            margin-bottom: 0.8em;'',
     ''            text-align: justify;'',
     ''        }'',
     ''        '',
     ''        img {'',
     ''            max-width: 100%;'',
     ''            height: auto;'',
     ''            page-break-inside: avoid;'',
     ''        }'',
     ''        '',
     ''        table {'',
     ''            page-break-inside: avoid;'',
     ''            border-collapse: collapse;'',
     ''            width: 100%;'',
     ''            margin-bottom: 1em;'',
     ''        }'',
     ''        '',
     ''        table td, table th {'',
     ''            border: 1px solid #ddd;'',
     ''            padding: 8px;'',
     ''            text-align: left;'',
     ''        }'',
     ''        '',
     ''        table th {'',
     ''            background-color: #f2f2f2;'',
     ''            font-weight: bold;'',
     ''        }'',
     ''        '',
     ''        pre, code {'',
     ''            font-family: "Courier New", monospace;'',
     ''            background-color: #f5f5f5;'',
     ''            padding: 0.2em 0.4em;'',
     ''            border-radius: 3px;'',
     ''            font-size: 11pt;'',
     ''        }'',
     ''        '',
     ''        pre {'',
     ''            padding: 1em;'',
     ''            overflow: hidden;'',
     ''            page-break-inside: avoid;'',
     ''            border: 1px solid #ddd;'',
     ''            border-radius: 4px;'',
     ''        }'',
     ''        '',
     ''        blockquote {'',
     ''            margin: 1em 2em;'',
     ''            padding-left: 1em;'',
     ''            border-left: 3px solid #ddd;'',
     ''            font-style: italic;'',
     ''            color: #666;'',
     ''        }'',
     ''        '',
     ''        ul, ol {'',
     ''            padding-left: 2em;'',
     ''            margin-bottom: 1em;'',
     ''        }'',
     ''        '',
     ''        li {'',
     ''            margin-bottom: 0.3em;'',
     ''        }'',
     ''        '',
     ''        a {'',
     ''            color: #0066cc;'',
     ''            text-decoration: underline;'',
     ''        }'',
     ''        '',
     ''        .page-break {'',
     ''            page-break-before: always;'',
     ''        }'',
     ''        </style>'',
     ''        ''
    ]\<close>

definition pdf_css :: ustr where
  "pdf_css = lit (concat (map (\<lambda>l. CHR 0x0A # l) pdf_css_lines))"

text \<open>
  The stylesheet is inserted at an index that is found in the lowered text and used in
  the text itself.
\<close>

definition insert_css :: "ustr \<Rightarrow> ustr" where
  "insert_css sanitized_html =
     (if contains (lower sanitized_html) (lit ''<head>'')
      then (let head_pos = nat (find (lower sanitized_html) (lit ''<head>'') + 6)
            in take head_pos sanitized_html @ pdf_css @ drop head_pos sanitized_html)
      else if contains (lower sanitized_html) (lit ''<html>'')
      then (let html_pos = nat (find (lower sanitized_html) (lit ''<html>'') + 6)
            in take html_pos sanitized_html @ lit ''<head>'' @ pdf_css @ lit ''</head>'' @
               drop html_pos sanitized_html)
      else lit ''<html><head>'' @ pdf_css @ lit ''</head><body>'' @ sanitized_html @
           lit ''</body></html>'')"

definition enhance_html_for_pdf :: "pylib \<Rightarrow> ustr \<Rightarrow> exn + ustr" where
  "enhance_html_for_pdf lib html_content =
     (case sanitize_css_for_pdf lib html_content of
        Inl e \<Rightarrow> Inl e
      | Inr sanitized_html \<Rightarrow> Inr (insert_css sanitized_html))"

section \<open>Paths\<close>

text \<open>
  A \<open>pathlib\<close> path on a POSIX system: the anchor (empty, \<open>/\<close> or \<open>//\<close>) and the
  names after it.  \<open>PosixPath s\<close> parses a string as the constructor \<open>Path(s)\<close> does:
  empty components and \<open>.\<close> are dropped, \<open>..\<close> is kept.
\<close>

datatype path = Path (anchor: ustr) (names: "ustr list")

fun split :: "nat \<Rightarrow> ustr \<Rightarrow> ustr list" where
  "split sep [] = [[]]"
| "split sep (x # xs) =
     (if x = sep then [] # split sep xs
      else (case split sep xs of [] \<Rightarrow> [[x]] | w # ws \<Rightarrow> (x # w) # ws))"

definition PosixPath :: "ustr \<Rightarrow> path" where
  "PosixPath s =
     Path (if take 1 s = lit ''/''
           then (if take 2 s = lit ''//'' \<and> take 3 s \<noteq> lit ''///'' then lit ''//'' else lit ''/'')
           else [])
          (filter (\<lambda>n. n \<noteq> [] \<and> n \<noteq> lit ''.'') (split 47 s))"

fun join :: "ustr \<Rightarrow> ustr list \<Rightarrow> ustr" where
  "join sep [] = []"
| "join sep [x] = x"
| "join sep (x # y # ys) = x @ sep @ join sep (y # ys)"

text \<open>\<open>str(p)\<close>\<close>

definition str :: "path \<Rightarrow> ustr" where
  "str p = (if anchor p = [] \<and> names p = [] then lit ''.''
            else anchor p @ join (lit ''/'') (names p))"

text \<open>\<open>p.name\<close>\<close>

definition name :: "path \<Rightarrow> ustr" where
  "name p = (if names p = [] then [] else last (names p))"

text \<open>\<open>s.rfind(c)\<close> for one character: the highest index of \<open>c\<close> in \<open>s\<close>, or \<open>-1\<close>.\<close>

definition rfind :: "ustr \<Rightarrow> nat \<Rightarrow> int" where
  "rfind s c = (if c \<in> set s then int (length s) - 1 - int (length (takeWhile (\<lambda>x. x \<noteq> c) (rev s)))
                else - 1)"

text \<open>
  \<open>p.suffix\<close> and \<open>p.stem\<close>, as \<open>pathlib\<close> computes them up to Python 3.13: the name is
  cut at its last dot, unless that dot is the first or the last character.
\<close>

definition suffix :: "path \<Rightarrow> ustr" where
  "suffix p =
     (let i = rfind (name p) 46
      in if 0 < i \<and> i < int (length (name p)) - 1 then drop (nat i) (name p) else [])"

definition stem :: "path \<Rightarrow> ustr" where
  "stem p =
     (let i = rfind (name p) 46
      in if 0 < i \<and> i < int (length (name p)) - 1 then take (nat i) (name p) else name p)"

text \<open>\<open>p.parent\<close>\<close>

definition parent :: "path \<Rightarrow> path" where
  "parent p = Path (anchor p) (butlast (names p))"

text \<open>\<open>p / q\<close>: an absolute right operand replaces the left one.\<close>

definition joinpath :: "path \<Rightarrow> path \<Rightarrow> path" where
  "joinpath p q = (if anchor q \<noteq> [] then q else Path (anchor p) (names p @ names q))"

text \<open>\<open>p.relative_to(other)\<close>, which raises \<open>ValueError\<close> unless \<open>other\<close> is a prefix of \<open>p\<close>.\<close>

definition relative_to :: "path \<Rightarrow> path \<Rightarrow> exn + path" where
  "relative_to p other =
     (if (if anchor other = [] \<and> names other = [] then anchor p \<noteq> []
          else anchor p \<noteq> anchor other \<or> take (length (names other)) (names p) \<noteq> names other)
      then Inl (Exception ''ValueError'')
      else Inr (Path [] (drop (length (names other)) (names p))))"

section \<open>\<open>config.py\<close>\<close>

definition DEFAULT_OUTPUT_DIR :: ustr where
  "DEFAULT_OUTPUT_DIR = lit ''output''"

definition SUPPORTED_EXTENSIONS :: "ustr list" where
  "SUPPORTED_EXTENSIONS = [lit ''.html'', lit ''.htm'']"

definition get_output_dir :: "ustr \<Rightarrow> path" where
  "get_output_dir base_path = joinpath (PosixPath base_path) (PosixPath DEFAULT_OUTPUT_DIR)"

definition is_html_file :: "path \<Rightarrow> bool" where
  "is_html_file file_path \<longleftrightarrow> lower (suffix file_path) \<in> set SUPPORTED_EXTENSIONS"

section \<open>\<open>PDFConverter.get_pdf_path\<close>\<close>

definition get_pdf_path :: "path \<Rightarrow> path \<Rightarrow> path \<Rightarrow> path" where
  "get_pdf_path html_file_path output_base_path relative_path =
     (let pdf_filename = stem html_file_path @ lit ''.pdf'';
          pdf_relative_dir = parent relative_path
      in joinpath (joinpath output_base_path pdf_relative_dir) (PosixPath pdf_filename))"

section \<open>The file system\<close>

text \<open>
  A file system is a tree: a regular file with its bytes, a directory with its entries
  in the order in which the system lists them, or something else (a device, a socket,
  a dangling link).  The process has a working directory, given by its names from the
  root.
\<close>

datatype node = File "nat list" | Dir "(ustr \<times> node) list" | Special

datatype event =
    Converting path path
  | Converted path
  | GenerationFailed path nat
  | ConvertFailed path exn
  | UnexpectedError path exn

text \<open>
  The state the program runs in: the file system and the records the \<open>logger\<close> has
  written (the messages about files; the others are left out).
\<close>

record world =
  root :: node
  cwd :: "ustr list"
  log :: "event list"

fun lookup :: "node \<Rightarrow> ustr list \<Rightarrow> node option" where
  "lookup t [] = Some t"
| "lookup (Dir es) (x # xs) = (case map_of es x of Some c \<Rightarrow> lookup c xs | None \<Rightarrow> None)"
| "lookup t (x # xs) = None"

text \<open>
  Path resolution, as the kernel does it: from the directory \<open>cur\<close>, every name is
  looked up in a directory that must exist; \<open>..\<close> goes to the parent (the root is its
  own parent).  The last name need not exist.
\<close>

fun canon :: "node \<Rightarrow> ustr list \<Rightarrow> ustr list \<Rightarrow> exn + ustr list" where
  "canon t cur [] = Inr cur"
| "canon t cur (x # xs) =
     (case lookup t cur of
        Some (Dir es) \<Rightarrow> canon t (if x = lit ''..'' then butlast cur else cur @ [x]) xs
      | Some other \<Rightarrow> Inl (Exception ''NotADirectoryError'')
      | None \<Rightarrow> Inl (Exception ''FileNotFoundError''))"

definition resolve :: "world \<Rightarrow> path \<Rightarrow> exn + ustr list" where
  "resolve w p = canon (root w) (if anchor p = [] then cwd w else []) (names p)"

definition stat :: "world \<Rightarrow> path \<Rightarrow> node option" where
  "stat w p = (case resolve w p of Inl e \<Rightarrow> None | Inr c \<Rightarrow> lookup (root w) c)"

definition exists :: "world \<Rightarrow> path \<Rightarrow> bool" where
  "exists w p \<longleftrightarrow> stat w p \<noteq> None"

definition is_dir :: "world \<Rightarrow> path \<Rightarrow> bool" where
  "is_dir w p \<longleftrightarrow> (case stat w p of Some (Dir es) \<Rightarrow> True | _ \<Rightarrow> False)"

definition is_file :: "world \<Rightarrow> path \<Rightarrow> bool" where
  "is_file w p \<longleftrightarrow> (case stat w p of Some (File b) \<Rightarrow> True | _ \<Rightarrow> False)"

text \<open>\<open>put t c v\<close> stores the node \<open>v\<close> under the resolved name list \<open>c\<close>.\<close>

fun put :: "node \<Rightarrow> ustr list \<Rightarrow> node \<Rightarrow> node" where
  "put t [] v = v"
| "put (Dir es) (x # xs) v =
     (if x \<in> fst ` set es
      then Dir (map (\<lambda>(k, c). if k = x then (k, put c xs v) else (k, c)) es)
      else if xs = [] then Dir (es @ [(x, v)]) else Dir es)"
| "put t (x # xs) v = t"

text \<open>
  What the system does besides the tree is its environment: \<open>os_fault\<close> makes a system
  call fail (permissions, a full disk, an interrupt), \<open>decode\<close> reads the bytes of a
  file as UTF-8 text with universal newlines, and \<open>CreatePDF\<close> is the rendering
  engine \<open>pisa.CreatePDF\<close>, which raises or returns its error count and the bytes of
  the document.
\<close>

datatype syscall = Mkdir path | OpenRead path | OpenWrite path | Write path

record pisa_status =
  err :: nat
  dest :: "nat list"

record system =
  os_fault :: "syscall \<Rightarrow> exn option"
  decode :: "nat list \<Rightarrow> ustr option"
  CreatePDF :: "ustr \<Rightarrow> exn + pisa_status"

text \<open>
  \<open>p.mkdir(parents=True, exist_ok=True)\<close>: every directory on the way is created
  when it is missing; a name that exists and is not a directory is an error.
\<close>

fun mkdirs :: "node \<Rightarrow> ustr list \<Rightarrow> ustr list \<Rightarrow> exn + node" where
  "mkdirs t cur [] = Inr t"
| "mkdirs t cur (x # xs) =
     (if x = lit ''..'' then mkdirs t (butlast cur) xs
      else (case lookup t (cur @ [x]) of
              Some (Dir es) \<Rightarrow> mkdirs t (cur @ [x]) xs
            | Some other \<Rightarrow>
                Inl (Exception (if xs = [] then ''FileExistsError'' else ''NotADirectoryError''))
            | None \<Rightarrow> mkdirs (put t (cur @ [x]) (Dir [])) (cur @ [x]) xs))"

definition mkdir :: "system \<Rightarrow> path \<Rightarrow> world \<Rightarrow> exn + world" where
  "mkdir sys p w =
     (case os_fault sys (Mkdir p) of
        Some e \<Rightarrow> Inl e
      | None \<Rightarrow>
          (case mkdirs (root w) (if anchor p = [] then cwd w else []) (names p) of
             Inl e \<Rightarrow> Inl e
           | Inr t \<Rightarrow> Inr (w\<lparr>root := t\<rparr>)))"

text \<open>\<open>open(p, 'r', encoding='utf-8')\<close> and \<open>read()\<close>\<close>

definition read_text :: "system \<Rightarrow> path \<Rightarrow> world \<Rightarrow> exn + ustr" where
  "read_text sys p w =
     (case os_fault sys (OpenRead p) of
        Some e \<Rightarrow> Inl e
      | None \<Rightarrow>
          (case resolve w p of
             Inl e \<Rightarrow> Inl e
           | Inr c \<Rightarrow>
               (case lookup (root w) c of
                  None \<Rightarrow> Inl (Exception ''FileNotFoundError'')
                | Some (Dir es) \<Rightarrow> Inl (Exception ''IsADirectoryError'')
                | Some Special \<Rightarrow> Inl (Exception ''OSError'')
                | Some (File b) \<Rightarrow>
                    (case decode sys b of
                       None \<Rightarrow> Inl (Exception ''UnicodeDecodeError'')
                     | Some s \<Rightarrow> Inr s))))"

text \<open>
  \<open>open(p, 'wb')\<close> and \<open>write(b)\<close>: opening creates or empties the file; when the
  write fails after that, the empty file stays.
\<close>

definition write_bytes :: "system \<Rightarrow> path \<Rightarrow> nat list \<Rightarrow> world \<Rightarrow> (exn option) \<times> world" where
  "write_bytes sys p b w =
     (case os_fault sys (OpenWrite p) of
        Some e \<Rightarrow> (Some e, w)
      | None \<Rightarrow>
          (case resolve w p of
             Inl e \<Rightarrow> (Some e, w)
           | Inr c \<Rightarrow>
               (if names p = [] then (Some (Exception ''IsADirectoryError''), w)
                else (case lookup (root w) c of
                        Some (Dir es) \<Rightarrow> (Some (Exception ''IsADirectoryError''), w)
                      | Some Special \<Rightarrow> (Some (Exception ''OSError''), w)
                      | _ \<Rightarrow>
                          (case os_fault sys (Write p) of
                             Some e \<Rightarrow> (Some e, w\<lparr>root := put (root w) c (File [])\<rparr>)
                           | None \<Rightarrow> (None, w\<lparr>root := put (root w) c (File b)\<rparr>))))))"

section \<open>\<open>html_finder.py\<close>\<close>

text \<open>
  \<open>base.rglob("*")\<close>, as names below the directory: the entries of the directory
  itself, then those of each of its subdirectories in turn.
\<close>

fun walk :: "node \<Rightarrow> ustr list list" where
  "walk (Dir es) =
     map (\<lambda>(n, c). [n]) es @ concat (map (\<lambda>(n, c). map ((#) n) (walk c)) es)"
| "walk t = []"

definition rglob :: "world \<Rightarrow> path \<Rightarrow> path list" where
  "rglob w base =
     (case stat w base of
        Some d \<Rightarrow> map (\<lambda>r. Path (anchor base) (names base @ r)) (walk d)
      | None \<Rightarrow> [])"

text \<open>\<open>HTMLFileFinder.__init__\<close>: the finder is its \<open>base_path\<close>.\<close>

definition HTMLFileFinder :: "world \<Rightarrow> ustr \<Rightarrow> exn + path" where
  "HTMLFileFinder w base_path =
     (if \<not> exists w (PosixPath base_path) then Inl (Exception ''FileNotFoundError'')
      else if \<not> is_dir w (PosixPath base_path) then Inl (Exception ''NotADirectoryError'')
      else Inr (PosixPath base_path))"

definition find_html_files :: "world \<Rightarrow> path \<Rightarrow> path list" where
  "find_html_files w base_path =
     filter (\<lambda>file_path. is_file w file_path \<and> is_html_file file_path) (rglob w base_path)"

definition get_relative_path :: "path \<Rightarrow> path \<Rightarrow> exn + path" where
  "get_relative_path base_path file_path = relative_to file_path base_path"

section \<open>\<open>PDFConverter.convert_html_to_pdf\<close>\<close>

definition logger :: "event \<Rightarrow> world \<Rightarrow> world" where
  "logger ev w = w\<lparr>log := log w @ [ev]\<rparr>"

text \<open>
  The body of the \<open>try\<close> block: what it returns or raises, and the world it leaves.
\<close>

definition convert_body :: "pylib \<Rightarrow> system \<Rightarrow> path \<Rightarrow> path \<Rightarrow> world \<Rightarrow> (exn + bool) \<times> world" where
  "convert_body lib sys html_file_path pdf_file_path w =
     (case mkdir sys (parent pdf_file_path) w of
        Inl e \<Rightarrow> (Inl e, w)
      | Inr w1 \<Rightarrow>
          (let w2 = logger (Converting html_file_path pdf_file_path) w1 in
           case read_text sys html_file_path w2 of
             Inl e \<Rightarrow> (Inl e, w2)
           | Inr html_content \<Rightarrow>
               (case enhance_html_for_pdf lib html_content of
                  Inl e \<Rightarrow> (Inl e, w2)
                | Inr enhanced_html \<Rightarrow>
                    (case CreatePDF sys enhanced_html of
                       Inl e \<Rightarrow> (Inl e, w2)
                     | Inr pisa_status \<Rightarrow>
                         if err pisa_status = 0
                         then (case write_bytes sys pdf_file_path (dest pisa_status) w2 of
                                 (Some e, w3) \<Rightarrow> (Inl e, w3)
                               | (None, w3) \<Rightarrow> (Inr True, logger (Converted html_file_path) w3))
                         else (Inr False,
                               logger (GenerationFailed html_file_path (err pisa_status)) w2)))))"

definition convert_html_to_pdf :: "pylib \<Rightarrow> system \<Rightarrow> path \<Rightarrow> path \<Rightarrow> world \<Rightarrow> (exn + bool) \<times> world" where
  "convert_html_to_pdf lib sys html_file_path pdf_file_path w =
     (case convert_body lib sys html_file_path pdf_file_path w of
        (Inl (Exception msg), w') \<Rightarrow>
          (Inr False, logger (ConvertFailed html_file_path (Exception msg)) w')
      | (r, w') \<Rightarrow> (r, w'))"

section \<open>\<open>html_to_pdf_converter.py\<close>\<close>

record converter =
  base_path :: path
  output_dir :: path
  total_files :: nat
  successful_conversions :: nat
  failed_conversions :: nat


text \<open>The body of the \<open>try\<close> block of \<open>_convert_single_file\<close>.\<close>

definition single_body ::
  "pylib \<Rightarrow> system \<Rightarrow> converter \<Rightarrow> path \<Rightarrow> world \<Rightarrow> exn option \<times> converter \<times> world" where
  "single_body lib sys self html_file w =
     (case get_relative_path (base_path self) html_file of
        Inl e \<Rightarrow> (Some e, self, w)
      | Inr relative_path \<Rightarrow>
          (let pdf_path = get_pdf_path html_file (output_dir self) relative_path in
           case convert_html_to_pdf lib sys html_file pdf_path w of
             (Inl e, w') \<Rightarrow> (Some e, self, w')
           | (Inr True, w') \<Rightarrow>
               (None, self\<lparr>successful_conversions := successful_conversions self + 1\<rparr>, w')
           | (Inr False, w') \<Rightarrow>
               (None, self\<lparr>failed_conversions := failed_conversions self + 1\<rparr>, w')))"

definition convert_single_file ::
  "pylib \<Rightarrow> system \<Rightarrow> converter \<Rightarrow> path \<Rightarrow> world \<Rightarrow> exn option \<times> converter \<times> world" where
  "convert_single_file lib sys self html_file w =
     (case single_body lib sys self html_file w of
        (Some (Exception msg), self', w') \<Rightarrow>
          (None, self'\<lparr>failed_conversions := failed_conversions self' + 1\<rparr>,
           logger (UnexpectedError html_file (Exception msg)) w')
      | r \<Rightarrow> r)"




section \<open>Notions used in the properties\<close>







text \<open>
  A directory tree as a file system has it: the names of a directory are distinct, and
  none is empty, \<open>.\<close>, \<open>..\<close> or contains a slash.
\<close>

definition valid_name :: "ustr \<Rightarrow> bool" where
  "valid_name n \<longleftrightarrow> n \<noteq> [] \<and> n \<noteq> lit ''.'' \<and> n \<noteq> lit ''..'' \<and> 47 \<notin> set n"

fun wf_node :: "node \<Rightarrow> bool" where
  "wf_node (Dir es) \<longleftrightarrow>
     distinct (map fst es) \<and> (\<forall>e\<in>set es. valid_name (fst e) \<and> wf_node (snd e))"
| "wf_node t \<longleftrightarrow> True"

text \<open>
  The unread rest of a match alone: \<open>rrest p s\<close> is the second component of
  \<open>rmatch p s\<close> (lemma \<open>rrest_rmatch\<close>), computed without the items' texts.
\<close>

fun rrest :: "item list \<Rightarrow> ustr \<Rightarrow> ustr option" where
  "rrest [] s = Some s"
| "rrest (One a # r) [] = None"
| "rrest (One a # r) (x # xs) = (if accepts a x then rrest r xs else None)"
| "rrest (Opt a # r) [] = rrest r []"
| "rrest (Opt a # r) (x # xs) =
     (if accepts a x
      then (case rrest r xs of Some t \<Rightarrow> Some t | None \<Rightarrow> rrest r (x # xs))
      else rrest r (x # xs))"
| "rrest (Star a # r) [] = rrest r []"
| "rrest (Star a # r) (x # xs) =
     (if accepts a x
      then (case rrest (Star a # r) xs of Some t \<Rightarrow> Some t | None \<Rightarrow> rrest r (x # xs))
      else rrest r (x # xs))"
| "rrest (Plus a # r) [] = None"
| "rrest (Plus a # r) (x # xs) = (if accepts a x then rrest (Star a # r) xs else None)"
| "rrest (Lazy a # r) [] = rrest r []"
| "rrest (Lazy a # r) (x # xs) =
     (case rrest r (x # xs) of
        Some t \<Rightarrow> Some t
      | None \<Rightarrow> if accepts a x then rrest (Lazy a # r) xs else None)"


section \<open>A scenario\<close>

text \<open>
  A library in which the removal of scripts runs out of memory; a site with a valid
  \<open>index.html\<close>, a \<open>broken.htm\<close> that is not UTF-8, a directory \<open>docs\<close> with a
  page, a file named \<open>.html\<close> and a text file, and a directory named \<open>old.htm\<close>;
  a system without faults whose decoder accepts ASCII and whose engine renders
  everything; the converter for the site.
\<close>

definition out_of_memory :: pylib where
  "out_of_memory =
     \<lparr>fault = (\<lambda>site s. if site = 5 then Some (Exception ''MemoryError'') else None),
      set_iter = remdups\<rparr>"

definition scenario :: world where
  "scenario =
     \<lparr>root = Dir [(lit ''site'',
               Dir [(lit ''index.html'', File (lit ''<p>hi</p>'')),
                    (lit ''broken.htm'', File [255]),
                    (lit ''docs'',
                       Dir [(lit ''Guide.HTML'', File (lit ''<h1>Guide</h1>'')),
                            (lit ''.html'', File []),
                            (lit ''notes.txt'', File (lit ''n''))]),
                    (lit ''old.htm'', Dir [])])],
      cwd = [],
      log = []\<rparr>"



section \<open>Properties\<close>

lemmas text_defs = lit_def isspace_def tolower_def lower_cp_def lower_def strip_def ci_eq_def isword_def

lemmas pattern_defs = pat_def ipat_def quotes_def empty_repl_def style_pattern_def attr_pattern_def
  inline_style_pattern_def link_css_pattern_def class_pattern_def css_attributes_def
  script_pattern_def

lemmas sanitize_defs = call_def quiet_def css_attribute_steps_def primary_steps_def try_block_def
  sanitize_css_for_pdf_def handler_def

lemmas path_defs = PosixPath_def name_def rfind_def suffix_def stem_def parent_def joinpath_def
  relative_to_def str_def get_pdf_path_def get_output_dir_def DEFAULT_OUTPUT_DIR_def
  is_html_file_def SUPPORTED_EXTENSIONS_def get_relative_path_def

lemmas fs_defs = resolve_def stat_def exists_def is_dir_def is_file_def mkdir_def read_text_def
  write_bytes_def rglob_def find_html_files_def HTMLFileFinder_def logger_def


subsection \<open>The sanitizer returns\<close>

lemma call_raises: "call lib site f s = Inl e \<Longrightarrow> fault lib site s = Some e"
  by (simp add: call_def split: option.splits)

lemma run_steps_raises:
  "run_steps fs v = (Some e, h) \<Longrightarrow> \<exists>f\<in>set fs. \<exists>u. f u = Inl e"
  by (induction fs arbitrary: v) (auto split: sum.splits)

lemma primary_steps_calls:
  "f \<in> set (primary_steps lib) \<Longrightarrow> \<exists>site g. f = call lib site g"
  by (auto simp: primary_steps_def css_attribute_steps_def)

lemma try_block_raises:
  assumes "try_block lib html_content = (Inl e, h)"
  shows "\<exists>site s. fault lib site s = Some e"
proof (cases "run_steps (primary_steps lib) html_content")
  case (Pair r v)
  show ?thesis
  proof (cases r)
    case None
    with Pair assms have "call lib 14 strip v = Inl e"
      by (auto simp: try_block_def)
    then show ?thesis
      by (blast dest: call_raises)
  next
    case (Some e')
    with Pair assms have "e' = e"
      by (simp add: try_block_def)
    with Pair Some obtain f u where "f \<in> set (primary_steps lib)" "f u = Inl e"
      by (blast dest: run_steps_raises)
    then show ?thesis
      by (metis primary_steps_calls call_raises)
  qed
qed

lemma sanitize_tiers:
  assumes "\<And>site s. fault lib site s \<noteq> Some KeyboardInterrupt"
  shows "(\<exists>r. sanitize_css_for_pdf lib html_content = Inr r) \<and>
         sanitize_css_for_pdf lib html_content =
           (case try_block lib html_content of
              (Inr r, h) \<Rightarrow> Inr r
            | (Inl e, h) \<Rightarrow>
                (case secondary lib h of
                   Inr clean_content \<Rightarrow> Inr clean_content
                 | Inl e' \<Rightarrow> Inr placeholder))"
proof (cases "try_block lib html_content")
  case (Pair r h)
  show ?thesis
  proof (cases r)
    case (Inr s)
    with Pair show ?thesis
      by (simp add: sanitize_css_for_pdf_def)
  next
    case (Inl e)
    with Pair obtain site s where "fault lib site s = Some e"
      by (blast dest: try_block_raises)
    with assms obtain msg where "e = Exception msg"
      by (cases e) auto
    with Pair Inl show ?thesis
      by (simp add: sanitize_css_for_pdf_def handler_def split: sum.splits)
  qed
qed

text \<open>
  C1.  \<open>_sanitize_css_for_pdf\<close> returns a string on every input and never lets an
  exception of the library pass, whatever library call raises and on whatever subject
  (a \<open>KeyboardInterrupt\<close> is not an \<open>Exception\<close>, and is left to the user): when the
  \<open>try\<close> block returns, that is the result; when it raises, the result is that of the
  fallback, run on \<open>html_content\<close> as the block left it; when the fallback raises
  too, the result is the fixed placeholder document.
\<close>

theorem sanitize_total:
  assumes "\<And>site s. fault lib site s \<noteq> Some KeyboardInterrupt"
  shows "(\<exists>r. sanitize_css_for_pdf lib html_content = Inr r) \<and>
         sanitize_css_for_pdf lib html_content =
           (case try_block lib html_content of
              (Inr r, h) \<Rightarrow> Inr r
            | (Inl e, h) \<Rightarrow>
                (case secondary lib h of
                   Inr clean_content \<Rightarrow> Inr clean_content
                 | Inl e' \<Rightarrow> Inr placeholder))"
  using assms by (rule sanitize_tiers)

theorem sanitize_total_witness:
  \<open>(\<forall>site s. fault out_of_memory site s \<noteq> Some KeyboardInterrupt) \<and>
   try_block out_of_memory (lit ''<p id="a"><font size=2>x</font><script>y</script>'') =
     (Inl (Exception ''MemoryError''), lit ''<p><font size=2>x</font><script>y</script>'') \<and>
   sanitize_css_for_pdf out_of_memory (lit ''<p id="a"><font size=2>x</font><script>y</script>'') =
     Inr (lit ''<p>xy'')\<close>
proof -
  have h: "\<And>site s. fault out_of_memory site s \<noteq> Some KeyboardInterrupt"
    by (simp add: out_of_memory_def)
  have t: \<open>try_block out_of_memory (lit ''<p id="a"><font size=2>x</font><script>y</script>'') =
     (Inl (Exception ''MemoryError''), lit ''<p><font size=2>x</font><script>y</script>'')\<close>
    by (simp add: text_defs pattern_defs call_def css_attribute_steps_def primary_steps_def
        try_block_def re_sub.simps out_of_memory_def)
  have s: \<open>secondary out_of_memory (lit ''<p><font size=2>x</font><script>y</script>'') =
     Inr (lit ''<p>xy'')\<close>
    by (simp add: text_defs pattern_defs call_def re_sub.simps out_of_memory_def secondary_def
        group_def re_findall.simps remove_tag_def basic_tags_def tag_pattern_def)
  from sanitize_total [OF h, of \<open>lit ''<p id="a"><font size=2>x</font><script>y</script>''\<close>] t s h
  show ?thesis
    by simp
qed

subsection \<open>The attribute loop of the sanitizer\<close>

text \<open>
  C7.  The claim: the loop over \<open>css_attributes\<close> removes the quoted \<open>id\<close>, \<open>data-*\<close>,
  \<open>aria-*\<close> and \<open>role\<close> attributes and nothing else.  The code: in \<^verbatim>\<open>data-.*\<close> the
  greedy \<^verbatim>\<open>.*\<close> runs to the last quoted value of the line, so on
  \<^verbatim>\<open><div data-x="1">Hello</div><img alt="pic">\<close> the loop removes the text \<open>Hello\<close>,
  the closing tag and the \<open>img\<close> tag with its \<open>alt\<close> attribute, and leaves \<^verbatim>\<open><div>\<close>.
\<close>

theorem css_attribute_steps_remove_text:
  \<open>run_steps (css_attribute_steps quiet) (lit ''<div data-x="1">Hello</div><img alt="pic">'') =
     (None, lit ''<div>'')\<close>
  by (simp add: text_defs pattern_defs sanitize_defs re_sub.simps)

subsection \<open>The place of the stylesheet\<close>

text \<open>
  C8.  The claim: when the sanitized document has a \<^verbatim>\<open><head>\<close> tag, in any case, the
  stylesheet is inserted immediately after it.  The code looks for the tag in the
  lowered text and cuts the text itself at that index; lowering U+0130 gives two code
  points, so behind such a character the cut is one place too far to the right: in
  \<open>U+0130\<close>\<^verbatim>\<open><head></head>\<close> the stylesheet lands inside the closing tag.
\<close>

theorem enhance_html_for_pdf_misplaces_css:
  \<open>enhance_html_for_pdf quiet ([304] @ lit ''<head></head>'') =
     Inr ([304] @ lit ''<head><'' @ pdf_css @ lit ''/head>'')\<close>
  by (simp add: text_defs pattern_defs sanitize_defs re_sub.simps enhance_html_for_pdf_def
      insert_css_def)

subsection \<open>Style and script blocks\<close>

lemma snd_took [simp]: "snd (took seg m) = snd m"
  by (cases m) simp

lemma snd_grow [simp]: "snd (grow x m) = snd m"
proof (cases m)
  case (Pair segs t)
  then show ?thesis by (cases segs) simp_all
qed

lemma grow_pair: "\<exists>segs'. grow x (segs, t) = (segs', t)"
  by (cases segs) simp_all

lemma rrest_rmatch: "map_option snd (rmatch p s) = rrest p s"
  by (induction p s rule: rrest.induct)
    (auto simp: option.map_comp comp_def grow_pair split: option.splits)




lemma rmatch_Some_rrest: "rmatch p s = Some (segs, t) \<Longrightarrow> rrest p s = Some t"
  using rrest_rmatch [of p s] by simp














lemma ipat_Cons: "ipat (x # xs) = One (ChrI x) # ipat xs"
  by (simp add: ipat_def)

lemma lit_Cons: "lit (c # cs) = of_char c # lit cs" "lit [] = []"
  by (simp_all add: lit_def)





























subsection \<open>The PDF path\<close>

lemma split_nonempty: "split sep s \<noteq> []"
  by (induction s) (auto split: list.splits)

lemma split_no_sep: "n \<in> set (split sep s) \<Longrightarrow> sep \<notin> set n"
  by (induction s arbitrary: n) (auto split: if_splits list.splits)

lemma split_id: "sep \<notin> set s \<Longrightarrow> split sep s = [s]"
  by (induction s) auto

lemma name_PosixPath_no_slash: "47 \<notin> set (name (PosixPath s))"
proof (cases "names (PosixPath s) = []")
  case True
  then show ?thesis by (simp add: name_def)
next
  case False
  then have "last (names (PosixPath s)) \<in> set (names (PosixPath s))"
    by simp
  then have "last (names (PosixPath s)) \<in> set (split 47 s)"
    by (simp add: PosixPath_def)
  with False show ?thesis
    by (auto simp: name_def dest: split_no_sep)
qed

lemma stem_subset: "set (stem p) \<subseteq> set (name p)"
  by (auto simp: stem_def Let_def dest: in_set_takeD)

lemma PosixPath_single:
  assumes "47 \<notin> set x" "x \<noteq> []" "x \<noteq> lit ''.''"
  shows "PosixPath x = Path [] [x]"
proof -
  from assms have "take 1 x \<noteq> lit ''/''"
    by (cases x) (auto simp: lit_def)
  with assms show ?thesis
    by (simp add: PosixPath_def split_id)
qed

lemma pdf_filename_path:
  "PosixPath (stem (PosixPath h) @ lit ''.pdf'') = Path [] [stem (PosixPath h) @ lit ''.pdf'']"
proof (rule PosixPath_single)
  show "47 \<notin> set (stem (PosixPath h) @ lit ''.pdf'')"
    using stem_subset [of "PosixPath h"] name_PosixPath_no_slash [of h]
    by (auto simp: lit_def)
  show "stem (PosixPath h) @ lit ''.pdf'' \<noteq> []"
    by (simp add: lit_def)
  show "stem (PosixPath h) @ lit ''.pdf'' \<noteq> lit ''.''"
    by (simp add: lit_def)
qed

lemma rfind_pdf: "rfind (x @ lit ''.pdf'') 46 = int (length x)"
  by (simp add: rfind_def lit_def)

lemma stem_suffix: "stem p @ suffix p = name p"
  by (simp add: stem_def suffix_def Let_def)

lemma stem_nonempty: "name p \<noteq> [] \<Longrightarrow> stem p \<noteq> []"
  by (auto simp: stem_def Let_def)

lemma name_joinpath_single: "name (joinpath p (Path [] [x])) = x"
  by (simp add: joinpath_def name_def)

lemma suffix_pdf:
  assumes "name p = x @ lit ''.pdf''" "x \<noteq> []"
  shows "suffix p = lit ''.pdf''"
  using assms by (simp add: suffix_def rfind_pdf Let_def) (simp add: lit_def)

text \<open>
  C5.  \<open>get_pdf_path\<close> returns the output root, joined with the parent of the relative
  path, joined with the PDF file name.  The PDF file name is the stem of the source
  name followed by \<open>.pdf\<close>, where stem and suffix make up the source name; so the
  suffix of the result is the lower-case \<open>.pdf\<close> whatever the source suffix was.  For a
  relative path that is not absolute, the result keeps the anchor and the names of the
  output root, then the directories of the relative path, then the PDF file name.
  \<open>map("a/b/c.HTML", "/out", "b/c.HTML")\<close> is \<open>/out/b/c.pdf\<close>.
\<close>

theorem get_pdf_path_mirrors:
  "get_pdf_path (PosixPath h) out rel =
     joinpath (joinpath out (parent rel)) (Path [] [stem (PosixPath h) @ lit ''.pdf'']) \<and>
   name (get_pdf_path (PosixPath h) out rel) = stem (PosixPath h) @ lit ''.pdf'' \<and>
   stem (PosixPath h) @ suffix (PosixPath h) = name (PosixPath h) \<and>
   (name (PosixPath h) \<noteq> [] \<longrightarrow> suffix (get_pdf_path (PosixPath h) out rel) = lit ''.pdf'') \<and>
   (anchor rel = [] \<longrightarrow>
      get_pdf_path (PosixPath h) out rel =
        Path (anchor out) (names out @ butlast (names rel) @ [stem (PosixPath h) @ lit ''.pdf''])) \<and>
   str (get_pdf_path (PosixPath (lit ''a/b/c.HTML'')) (PosixPath (lit ''/out''))
          (PosixPath (lit ''b/c.HTML''))) = lit ''/out/b/c.pdf''"
proof -
  let ?pdf = "stem (PosixPath h) @ lit ''.pdf''"
  have eq: "get_pdf_path (PosixPath h) out rel =
              joinpath (joinpath out (parent rel)) (Path [] [?pdf])"
    by (simp add: get_pdf_path_def pdf_filename_path)
  have nm: "name (get_pdf_path (PosixPath h) out rel) = ?pdf"
    by (simp only: eq name_joinpath_single)
  have sf: "name (PosixPath h) \<noteq> [] \<longrightarrow> suffix (get_pdf_path (PosixPath h) out rel) = lit ''.pdf''"
    using nm by (auto intro: suffix_pdf dest: stem_nonempty)
  have rl: "anchor rel = [] \<longrightarrow>
      get_pdf_path (PosixPath h) out rel = Path (anchor out) (names out @ butlast (names rel) @ [?pdf])"
    by (simp add: eq joinpath_def parent_def)
  have ex: "str (get_pdf_path (PosixPath (lit ''a/b/c.HTML'')) (PosixPath (lit ''/out''))
          (PosixPath (lit ''b/c.HTML''))) = lit ''/out/b/c.pdf''"
    by (simp add: get_pdf_path_def PosixPath_def lit_def stem_def name_def rfind_def joinpath_def
        parent_def str_def Let_def)
  from eq nm sf rl ex show ?thesis
    using stem_suffix by blast
qed

theorem get_pdf_path_mirrors_witness:
  "name (PosixPath (lit ''docs/sub/Page.HTM'')) \<noteq> [] \<and>
   anchor (PosixPath (lit ''sub/Page.HTM'')) = [] \<and>
   suffix (get_pdf_path (PosixPath (lit ''docs/sub/Page.HTM'')) (PosixPath (lit ''out''))
             (PosixPath (lit ''sub/Page.HTM''))) = lit ''.pdf'' \<and>
   str (get_pdf_path (PosixPath (lit ''docs/sub/Page.HTM'')) (PosixPath (lit ''out''))
          (PosixPath (lit ''sub/Page.HTM''))) = lit ''out/sub/Page.pdf''"
  using get_pdf_path_mirrors [of "lit ''docs/sub/Page.HTM''" "PosixPath (lit ''out'')"
      "PosixPath (lit ''sub/Page.HTM'')"]
  by (simp add: PosixPath_def lit_def stem_def name_def rfind_def str_def Let_def get_pdf_path_def
      joinpath_def parent_def suffix_def)

subsection \<open>Names that are only an extension\<close>

lemma dotfile_suffix:
  "name p = lit ''.html'' \<or> name p = lit ''.htm'' \<Longrightarrow> suffix p = []"
  by (auto simp: suffix_def rfind_def lit_def Let_def)

text \<open>
  C10.  A path whose name is \<open>.html\<close> or \<open>.htm\<close> has an empty suffix and is not an
  HTML file for \<open>Config.is_html_file\<close>; no file that discovery yields has such a
  name; the test is one on the lowered suffix alone.
\<close>

theorem dotfile_not_discovered:
  "(name p = lit ''.html'' \<or> name p = lit ''.htm'' \<longrightarrow> suffix p = [] \<and> \<not> is_html_file p) \<and>
   (\<forall>f\<in>set (find_html_files w base). name f \<noteq> lit ''.html'' \<and> name f \<noteq> lit ''.htm'') \<and>
   (is_html_file p \<longleftrightarrow> lower (suffix p) = lit ''.html'' \<or> lower (suffix p) = lit ''.htm'')"
proof -
  have a: "name q = lit ''.html'' \<or> name q = lit ''.htm'' \<Longrightarrow> \<not> is_html_file q" for q
    by (simp add: dotfile_suffix is_html_file_def SUPPORTED_EXTENSIONS_def lower_def lit_def)
  have b: "\<forall>f\<in>set (find_html_files w base). name f \<noteq> lit ''.html'' \<and> name f \<noteq> lit ''.htm''"
    using a by (auto simp: find_html_files_def)
  have c: "is_html_file p \<longleftrightarrow> lower (suffix p) = lit ''.html'' \<or> lower (suffix p) = lit ''.htm''"
    by (simp add: is_html_file_def SUPPORTED_EXTENSIONS_def)
  from a b c show ?thesis
    by (auto simp: dotfile_suffix)
qed

theorem dotfile_not_discovered_witness:
  "name (PosixPath (lit ''/site/docs/.html'')) = lit ''.html'' \<and>
   is_file scenario (PosixPath (lit ''/site/docs/.html'')) \<and>
   \<not> is_html_file (PosixPath (lit ''/site/docs/.html'')) \<and>
   PosixPath (lit ''/site/docs/.html'') \<notin> set (find_html_files scenario (PosixPath (lit ''/site'')))"
proof -
  have n: "name (PosixPath (lit ''/site/docs/.html'')) = lit ''.html''"
    by (simp add: path_defs text_defs)
  have f: "is_file scenario (PosixPath (lit ''/site/docs/.html''))"
    by (simp add: fs_defs path_defs scenario_def text_defs)
  from dotfile_not_discovered [of "PosixPath (lit ''/site/docs/.html'')" scenario
      "PosixPath (lit ''/site'')"] n f
  show ?thesis
    by blast
qed

subsection \<open>Discovery\<close>

lemma lookup_append:
  "lookup t (c @ r) = (case lookup t c of None \<Rightarrow> None | Some d \<Rightarrow> lookup d r)"
  by (induction t c rule: lookup.induct) (simp_all split: option.splits)

lemma canon_append:
  "canon t cur (xs @ ys) = (case canon t cur xs of Inl e \<Rightarrow> Inl e | Inr c \<Rightarrow> canon t c ys)"
  by (induction t cur xs rule: canon.induct) (auto split: option.splits node.splits)

lemma wf_node_lookup: "wf_node t \<Longrightarrow> lookup t c = Some d \<Longrightarrow> wf_node d"
proof (induction t c rule: lookup.induct)
  case (2 es x xs)
  then show ?case
    by (auto split: option.splits dest!: map_of_SomeD)
qed auto

lemma lookup_names_valid:
  "wf_node t \<Longrightarrow> lookup t r \<noteq> None \<Longrightarrow> n \<in> set r \<Longrightarrow> valid_name n"
proof (induction t r rule: lookup.induct)
  case (2 es x xs)
  then show ?case
    by (auto split: option.splits dest!: map_of_SomeD)
qed auto

lemma canon_descend:
  "lookup t c = Some d \<Longrightarrow> lookup d r \<noteq> None \<Longrightarrow> lit ''..'' \<notin> set r \<Longrightarrow>
     canon t c r = Inr (c @ r)"
proof (induction r arbitrary: c d)
  case Nil
  then show ?case by simp
next
  case (Cons x xs)
  from Cons.prems(2) obtain es d' where d: "d = Dir es" "map_of es x = Some d'" "lookup d' xs \<noteq> None"
    by (cases d) (auto split: option.splits)
  with Cons.prems(1) have "lookup t (c @ [x]) = Some d'"
    by (simp add: lookup_append)
  moreover have "x \<noteq> lit ''..''"
    using Cons.prems by auto
  ultimately show ?case
    using Cons.IH [of "c @ [x]" d'] Cons.prems d by simp
qed

lemma walk_nonempty: "[] \<notin> set (walk d)"
  by (cases d) auto

lemma in_walk_Dir:
  "r \<in> set (walk (Dir es)) \<longleftrightarrow>
     (\<exists>n c. (n, c) \<in> set es \<and> (r = [n] \<or> (\<exists>r'\<in>set (walk c). r = n # r')))"
  by (force simp: image_iff)

lemma walk_iff:
  "wf_node d \<Longrightarrow> r \<in> set (walk d) \<longleftrightarrow> r \<noteq> [] \<and> lookup d r \<noteq> None"
proof (induction r arbitrary: d)
  case Nil
  then show ?case by (simp add: walk_nonempty)
next
  case (Cons x xs)
  show ?case
  proof (cases d)
    case (Dir es)
    with Cons.prems have dist: "distinct (map fst es)"
      and wf: "\<And>c. (x, c) \<in> set es \<Longrightarrow> wf_node c"
      by auto
    have m: "map_of es x = Some c \<longleftrightarrow> (x, c) \<in> set es" for c
      using dist by (auto dest: map_of_SomeD)
    have "x # xs \<in> set (walk d) \<longleftrightarrow>
            (xs = [] \<and> (\<exists>c. (x, c) \<in> set es)) \<or> (\<exists>c. (x, c) \<in> set es \<and> xs \<in> set (walk c))"
      using Dir by (auto simp: in_walk_Dir simp del: walk.simps)
    also have "\<dots> \<longleftrightarrow> (\<exists>c. (x, c) \<in> set es \<and> lookup c xs \<noteq> None)"
    proof (cases xs)
      case Nil
      then show ?thesis by (auto simp: walk_nonempty)
    next
      case (Cons y ys)
      then show ?thesis
        using Cons.IH wf by auto
    qed
    also have "\<dots> \<longleftrightarrow> lookup d (x # xs) \<noteq> None"
    proof (cases "map_of es x")
      case None
      with m Dir show ?thesis by auto
    next
      case (Some c')
      with m have "(x, c) \<in> set es \<longleftrightarrow> c = c'" for c
        by (metis option.inject)
      with Some Dir show ?thesis by simp
    qed
    finally show ?thesis by simp
  qed auto
qed

lemma stat_child:
  assumes wf: "wf_node (root w)" and base: "stat w base = Some d" and r: "lookup d r \<noteq> None"
  shows "stat w (Path (anchor base) (names base @ r)) = lookup d r"
proof -
  from base obtain cb where cb: "resolve w base = Inr cb" "lookup (root w) cb = Some d"
    by (auto simp: stat_def split: sum.splits)
  from wf cb(2) have "wf_node d"
    by (rule wf_node_lookup)
  with r have "lit ''..'' \<notin> set r"
    by (auto dest: lookup_names_valid simp: valid_name_def)
  with cb(2) r have "canon (root w) cb r = Inr (cb @ r)"
    by (rule canon_descend)
  with cb(1) have "resolve w (Path (anchor base) (names base @ r)) = Inr (cb @ r)"
    by (simp add: resolve_def canon_append)
  with cb(2) show ?thesis
    by (simp add: stat_def lookup_append)
qed

lemma name_child: "r \<noteq> [] \<Longrightarrow> name (Path a (ns @ r)) = name (Path [] r)"
  by (simp add: name_def)

lemma is_html_file_child:
  "r \<noteq> [] \<Longrightarrow> is_html_file (Path a (ns @ r)) = is_html_file (Path [] r)"
  by (simp add: is_html_file_def suffix_def name_child Let_def)

lemma relative_child: "get_relative_path base (Path (anchor base) (names base @ r)) = Inr (Path [] r)"
  by (simp add: get_relative_path_def relative_to_def)

lemma find_html_files_set:
  assumes wf: "wf_node (root w)" and base: "stat w base = Some d"
  shows "set (find_html_files w base) =
           {Path (anchor base) (names base @ r) | r.
              r \<noteq> [] \<and> (\<exists>b. lookup d r = Some (File b)) \<and> is_html_file (Path [] r)}"
    (is "?L = ?R")
proof -
  from wf base have wfd: "wf_node d"
    by (auto simp: stat_def split: sum.splits dest: wf_node_lookup)
  have "f \<in> ?L \<longleftrightarrow> f \<in> ?R" for f
  proof
    assume "f \<in> ?L"
    then obtain r where r: "r \<in> set (walk d)" "f = Path (anchor base) (names base @ r)"
      and f: "is_file w f" "is_html_file f"
      using base by (auto simp: find_html_files_def rglob_def)
    from r(1) wfd have ne: "r \<noteq> []" "lookup d r \<noteq> None"
      by (simp_all add: walk_iff)
    with wf base r(2) have "stat w f = lookup d r"
      by (simp add: stat_child)
    with f(1) obtain b where "lookup d r = Some (File b)"
      by (auto simp: is_file_def split: option.splits node.splits)
    with ne r(2) f(2) show "f \<in> ?R"
      by (auto simp: is_html_file_child)
  next
    assume "f \<in> ?R"
    then obtain r b where r: "f = Path (anchor base) (names base @ r)" "r \<noteq> []"
      "lookup d r = Some (File b)" "is_html_file (Path [] r)"
      by auto
    with wfd have "r \<in> set (walk d)"
      by (simp add: walk_iff)
    moreover from wf base r have "stat w f = Some (File b)"
      by (simp add: stat_child)
    ultimately show "f \<in> ?L"
      using base r by (auto simp: find_html_files_def rglob_def is_file_def is_html_file_child)
  qed
  then show ?thesis by blast
qed

text \<open>
  C4.  In a well-formed tree, for a finder that was constructed (its base exists and is
  a directory), the files that discovery yields, taken relative to the base, are
  exactly the non-empty name lists under the base that lead to a regular file and
  whose last name has the suffix \<open>.html\<close> or \<open>.htm\<close> after lowering.  Directories,
  other nodes and files with another suffix are not among them.
\<close>

theorem discovery_exact:
  assumes "wf_node (root w)" and "HTMLFileFinder w start = Inr base"
  shows "\<exists>es. stat w base = Some (Dir es) \<and>
           get_relative_path base ` set (find_html_files w base) =
             {Inr (Path [] r) | r.
                r \<noteq> [] \<and> (\<exists>b. lookup (Dir es) r = Some (File b)) \<and>
                (lower (suffix (Path [] r)) = lit ''.html'' \<or>
                 lower (suffix (Path [] r)) = lit ''.htm'')}"
proof -
  from assms(2) obtain es where d: "stat w base = Some (Dir es)"
    by (auto simp: HTMLFileFinder_def is_dir_def split: if_splits option.splits node.splits)
  have "get_relative_path base ` set (find_html_files w base) =
          {Inr (Path [] r) | r.
             r \<noteq> [] \<and> (\<exists>b. lookup (Dir es) r = Some (File b)) \<and> is_html_file (Path [] r)}"
    unfolding find_html_files_set [OF assms(1) d]
    by (auto simp: relative_child image_iff) (metis relative_child)
  then show ?thesis
    using d by (simp add: is_html_file_def SUPPORTED_EXTENSIONS_def)
qed

lemma scenario_files:
  "find_html_files scenario (PosixPath (lit ''/site'')) =
     [PosixPath (lit ''/site/index.html''), PosixPath (lit ''/site/broken.htm''),
      PosixPath (lit ''/site/docs/Guide.HTML'')]"
  by (simp add: fs_defs path_defs scenario_def text_defs)

lemma scenario_wf: "wf_node (root scenario)"
  by (simp add: scenario_def valid_name_def text_defs)

lemma scenario_finder: "HTMLFileFinder scenario (lit ''/site'') = Inr (PosixPath (lit ''/site''))"
  by (simp add: fs_defs path_defs scenario_def text_defs)

theorem discovery_exact_witness:
  "wf_node (root scenario) \<and>
   HTMLFileFinder scenario (lit ''/site'') = Inr (PosixPath (lit ''/site'')) \<and>
   get_relative_path (PosixPath (lit ''/site'')) `
     set (find_html_files scenario (PosixPath (lit ''/site''))) =
     {Inr (PosixPath (lit ''index.html'')), Inr (PosixPath (lit ''broken.htm'')),
      Inr (PosixPath (lit ''docs/Guide.HTML''))}"
proof -
  from discovery_exact [OF scenario_wf scenario_finder] obtain es where
    "stat scenario (PosixPath (lit ''/site'')) = Some (Dir es)"
    by blast
  moreover have "get_relative_path (PosixPath (lit ''/site'')) `
     set (find_html_files scenario (PosixPath (lit ''/site''))) =
     {Inr (PosixPath (lit ''index.html'')), Inr (PosixPath (lit ''broken.htm'')),
      Inr (PosixPath (lit ''docs/Guide.HTML''))}"
    by (simp add: scenario_files) (simp add: path_defs text_defs)
  ultimately show ?thesis
    using scenario_wf scenario_finder by simp
qed

subsection \<open>The batch\<close>


lemma logger_simps [simp]:
  "root (logger ev w) = root w" "cwd (logger ev w) = cwd w" "log (logger ev w) = log w @ [ev]"
  by (simp_all add: logger_def)

lemma resolve_logger [simp]: "resolve (logger ev w) p = resolve w p"
  by (simp add: resolve_def)

lemma read_text_logger [simp]: "read_text sys p (logger ev w) = read_text sys p w"
  by (auto simp: read_text_def split: option.splits sum.splits)








text \<open>One conversion: what it returns, what it logs.\<close>

lemma convert_html_to_pdf_escape:
  "convert_html_to_pdf lib sys h p w = (Inl e, w') \<Longrightarrow> e = KeyboardInterrupt"
  by (auto simp: convert_html_to_pdf_def split: prod.splits sum.splits exn.splits)







text \<open>One file of the batch.\<close>

lemma convert_single_file_escape:
  "convert_single_file lib sys self f w = (Some e, self', w') \<Longrightarrow> e = KeyboardInterrupt"
  by (auto simp: convert_single_file_def split: prod.splits option.splits exn.splits)




















lemma mkdir_fields: "mkdir sys p w = Inr w1 \<Longrightarrow> cwd w1 = cwd w \<and> log w1 = log w"
  by (auto simp: mkdir_def split: option.splits sum.splits)




end
